theory Spec2Isabelle
  imports Main "HOL-Library.Word"
begin

section \<open>Joystick controller for the RGB LED and the OLED display\<close>

text \<open>
  The program (\<^verbatim>\<open>AtividadeADC.c\<close> and its second copy with narrower motion limits)
  has an interrupt handler \<^verbatim>\<open>gpio_callback\<close> for the two buttons and a polling loop in
  \<^verbatim>\<open>main\<close>. The globals and the handler's static variable are gathered in one record;
  every call into the platform that drives an output (a pin, a PWM level, the display)
  is appended to a trace of effects, in program order.
\<close>

subsection \<open>Constants\<close>

definition VRX_PIN :: "32 word" where "VRX_PIN = 26"
definition VRY_PIN :: "32 word" where "VRY_PIN = 27"
definition SW_PIN :: "32 word" where "SW_PIN = 22"
definition BUTTON_A_PIN :: "32 word" where "BUTTON_A_PIN = 5"
definition LED_R_PIN :: "32 word" where "LED_R_PIN = 13"
definition LED_G_PIN :: "32 word" where "LED_G_PIN = 11"
definition LED_B_PIN :: "32 word" where "LED_B_PIN = 12"

definition JOYSTICK_CENTER :: int where "JOYSTICK_CENTER = 2048"
definition ADC_MAX :: int where "ADC_MAX = 4095"
definition PWM_MAX :: int where "PWM_MAX = 65535"

text \<open>
  Modelled from the spec: \<^verbatim>\<open>WIDTH\<close> and \<^verbatim>\<open>HEIGHT\<close> come from \<^verbatim>\<open>inc/ssd1306.h\<close>, which is
  not among the sources; the display is the 128 by 64 monochrome grid.
\<close>

definition WIDTH :: int where "WIDTH = 128"
definition HEIGHT :: int where "HEIGHT = 64"

subsection \<open>State and effects\<close>

text \<open>
  The calls that reach the hardware, with their arguments as written at the call site.
  The display handle \<^verbatim>\<open>&ssd\<close> is the same in every call and is left out.
\<close>

datatype effect =
    GpioPut "32 word" bool
  | PwmSetGpioLevel "32 word" "16 word"
  | Ssd1306Fill bool
  | Ssd1306Rect int int int int bool bool
  | Ssd1306Hline int int int bool
  | Ssd1306Vline int int int bool
  | Ssd1306SendData

record state =
  square_x :: int
  square_y :: int
  led_green_state :: bool
  pwm_enabled :: bool
  border_style :: "8 word"
  last_interrupt_time :: "32 word"
  trace :: "effect list"

text \<open>The initialisers of the globals; nothing has been driven yet.\<close>

definition init_state :: state where
  "init_state = \<lparr> square_x = 60, square_y = 28, led_green_state = False,
     pwm_enabled = True, border_style = 0, last_interrupt_time = 0, trace = [] \<rparr>"

definition emit :: "effect \<Rightarrow> state \<Rightarrow> state" where
  "emit e s = s\<lparr> trace := trace s @ [e] \<rparr>"

subsection \<open>C arithmetic\<close>

text \<open>
  The operands of the arithmetic in \<^verbatim>\<open>main\<close> are \<^verbatim>\<open>uint16_t\<close> values promoted to
  \<^verbatim>\<open>int\<close> (32 bits on the target). They are modelled as mathematical integers;
  \<open>arith_fits_int\<close> below shows that no intermediate value leaves the 32-bit range.
  C's \<^verbatim>\<open>/\<close> truncates towards zero, unlike \<open>div\<close>.
\<close>

definition c_div :: "int \<Rightarrow> int \<Rightarrow> int" where
  "c_div a b = (if (a < 0) = (b < 0) then \<bar>a\<bar> div \<bar>b\<bar> else - (\<bar>a\<bar> div \<bar>b\<bar>))"

text \<open>The conversion of an \<^verbatim>\<open>int\<close> to \<^verbatim>\<open>uint16_t\<close> on assignment: reduction modulo \<open>2^16\<close>.\<close>

definition to_uint16 :: "int \<Rightarrow> 16 word" where
  "to_uint16 i = word_of_int i"

definition to_uint8 :: "int \<Rightarrow> 8 word" where
  "to_uint8 i = word_of_int i"

subsection \<open>PWM\<close>

text \<open>\<^verbatim>\<open>pwm_set_gpio_level(gpio, pwm_enabled ? duty : 0)\<close>\<close>

definition set_pwm_duty :: "32 word \<Rightarrow> 16 word \<Rightarrow> state \<Rightarrow> state" where
  "set_pwm_duty gpio duty s =
     emit (PwmSetGpioLevel gpio (if pwm_enabled s then duty else 0)) s"

subsection \<open>Interrupt handler\<close>

text \<open>
  \<open>interrupt_time\<close> is the value returned by \<^verbatim>\<open>time_us_32()\<close>. The subtraction is on
  \<^verbatim>\<open>uint32_t\<close> and wraps. The argument \<open>events\<close> is not read.
\<close>

definition gpio_callback :: "32 word \<Rightarrow> 32 word \<Rightarrow> 32 word \<Rightarrow> state \<Rightarrow> state" where
  "gpio_callback gpio events interrupt_time s =
     (if interrupt_time - last_interrupt_time s > 200000 then
        (let s1 =
           (if gpio = SW_PIN then
              (let s2 = s\<lparr> led_green_state := \<not> led_green_state s \<rparr>;
                   s3 = emit (GpioPut LED_G_PIN (led_green_state s2)) s2
               in s3\<lparr> border_style := to_uint8 ((uint (border_style s3) + 1) mod 3) \<rparr>)
            else if gpio = BUTTON_A_PIN then
              s\<lparr> pwm_enabled := \<not> pwm_enabled s \<rparr>
            else s)
         in s1\<lparr> last_interrupt_time := interrupt_time \<rparr>)
      else s)"

subsection \<open>Display\<close>

definition draw_border :: "8 word \<Rightarrow> state \<Rightarrow> state" where
  "draw_border style s =
     (if style = 0 then
        emit (Ssd1306Rect 0 0 WIDTH HEIGHT True False) s
      else if style = 1 then
        emit (Ssd1306Rect 2 2 (WIDTH - 4) (HEIGHT - 4) True False)
          (emit (Ssd1306Rect 0 0 WIDTH HEIGHT True False) s)
      else if style = 2 then
        (let s = emit (Ssd1306Hline 0 10 0 True) s;
             s = emit (Ssd1306Hline (WIDTH - 10) (WIDTH - 1) 0 True) s;
             s = emit (Ssd1306Hline 0 10 (HEIGHT - 1) True) s;
             s = emit (Ssd1306Hline (WIDTH - 10) (WIDTH - 1) (HEIGHT - 1) True) s;
             s = emit (Ssd1306Vline 0 0 10 True) s;
             s = emit (Ssd1306Vline 0 (HEIGHT - 10) (HEIGHT - 1) True) s;
             s = emit (Ssd1306Vline (WIDTH - 1) 0 10 True) s;
             s = emit (Ssd1306Vline (WIDTH - 1) (HEIGHT - 10) (HEIGHT - 1) True) s
         in s)
      else s)"

subsection \<open>One pass of the main loop\<close>

text \<open>
  \<open>vrx_value\<close> and \<open>vry_value\<close> are the two results of \<^verbatim>\<open>adc_read()\<close>, stored in
  \<^verbatim>\<open>uint16_t\<close>. The two copies of the program differ only in the motion limits of the
  square, which are the parameters \<open>limit_x\<close> and \<open>limit_y\<close> here.
\<close>

definition main_loop_body :: "int \<Rightarrow> int \<Rightarrow> 16 word \<Rightarrow> 16 word \<Rightarrow> state \<Rightarrow> state" where
  "main_loop_body limit_x limit_y vrx_value vry_value s =
     (let red_pwm = (0 :: 16 word);
          blue_pwm = (0 :: 16 word);
          blue_pwm = (if \<bar>uint vrx_value - JOYSTICK_CENTER\<bar> > 150
                      then to_uint16 (\<bar>uint vrx_value - JOYSTICK_CENTER\<bar> * 32)
                      else blue_pwm);
          red_pwm = (if \<bar>uint vry_value - JOYSTICK_CENTER\<bar> > 150
                     then to_uint16 (\<bar>uint vry_value - JOYSTICK_CENTER\<bar> * 32)
                     else red_pwm);
          s = set_pwm_duty LED_R_PIN red_pwm s;
          s = set_pwm_duty LED_B_PIN blue_pwm s;
          s = s\<lparr> square_x := 60 + c_div ((uint vry_value - JOYSTICK_CENTER) * limit_x) ADC_MAX \<rparr>;
          s = s\<lparr> square_y := 28 - c_div ((uint vrx_value - JOYSTICK_CENTER) * limit_y) ADC_MAX \<rparr>;
          s = emit (Ssd1306Fill False) s;
          s = emit (Ssd1306Rect (square_y s) (square_x s) 8 8 True True) s;
          s = draw_border (border_style s) s;
          s = emit Ssd1306SendData s
      in s)"

text \<open>\<^verbatim>\<open>AtividadeADC.c\<close>: limits 114 and 50.\<close>

definition main_loop_body_wide :: "16 word \<Rightarrow> 16 word \<Rightarrow> state \<Rightarrow> state" where
  "main_loop_body_wide = main_loop_body 114 50"

text \<open>The second copy: limits 52 and 24.\<close>

definition main_loop_body_narrow :: "16 word \<Rightarrow> 16 word \<Rightarrow> state \<Rightarrow> state" where
  "main_loop_body_narrow = main_loop_body 52 24"

subsection \<open>Observing the trace\<close>

text \<open>The level most recently written to the PWM output of a pin, if any.\<close>

fun driven_level :: "32 word \<Rightarrow> effect list \<Rightarrow> 16 word option" where
  "driven_level gpio [] = None"
| "driven_level gpio (e # es) =
     (case driven_level gpio es of
        Some l \<Rightarrow> Some l
      | None \<Rightarrow> (case e of
                   PwmSetGpioLevel g l \<Rightarrow> if g = gpio then Some l else None
                 | _ \<Rightarrow> None))"

text \<open>The effects a step appended to the trace.\<close>

definition new_effects :: "state \<Rightarrow> state \<Rightarrow> effect list" where
  "new_effects s s' = drop (length (trace s)) (trace s')"

subsection \<open>Reachable states\<close>

text \<open>
  The program starts in \<open>init_state\<close>; from then on the handler runs at any time with
  any pin, event mask and clock value, and the loop runs with any pair of samples. The
  loop body writes none of the variables the handler reads or writes, so running the
  handler between two passes covers what it can do to them in the middle of one.
\<close>

inductive reachable :: "int \<Rightarrow> int \<Rightarrow> state \<Rightarrow> bool" for limit_x limit_y where
  reach_init: "reachable limit_x limit_y init_state"
| reach_irq: "reachable limit_x limit_y s \<Longrightarrow>
     reachable limit_x limit_y (gpio_callback gpio events interrupt_time s)"
| reach_loop: "reachable limit_x limit_y s \<Longrightarrow>
     reachable limit_x limit_y (main_loop_body limit_x limit_y vrx_value vry_value s)"

section \<open>Basic facts\<close>

subsection \<open>What each step leaves alone\<close>

lemma emit_simps [simp]:
  "trace (emit e s) = trace s @ [e]"
  "square_x (emit e s) = square_x s"
  "square_y (emit e s) = square_y s"
  "led_green_state (emit e s) = led_green_state s"
  "pwm_enabled (emit e s) = pwm_enabled s"
  "border_style (emit e s) = border_style s"
  "last_interrupt_time (emit e s) = last_interrupt_time s"
  by (simp_all add: emit_def)

lemma driven_level_append:
  "driven_level g (xs @ ys) =
     (case driven_level g ys of Some l \<Rightarrow> Some l | None \<Rightarrow> driven_level g xs)"
  by (induction xs) (auto split: option.splits effect.splits)

lemma draw_border_frame [simp]:
  "square_x (draw_border st s) = square_x s"
  "square_y (draw_border st s) = square_y s"
  "led_green_state (draw_border st s) = led_green_state s"
  "pwm_enabled (draw_border st s) = pwm_enabled s"
  "border_style (draw_border st s) = border_style s"
  "last_interrupt_time (draw_border st s) = last_interrupt_time s"
  by (simp_all add: draw_border_def Let_def)

lemma driven_level_draw_border [simp]:
  "driven_level g (trace (draw_border st s)) = driven_level g (trace s)"
  by (simp add: draw_border_def Let_def driven_level_append)

lemma set_pwm_duty_simps [simp]:
  "trace (set_pwm_duty g d s) = trace s @ [PwmSetGpioLevel g (if pwm_enabled s then d else 0)]"
  "square_x (set_pwm_duty g d s) = square_x s"
  "square_y (set_pwm_duty g d s) = square_y s"
  "led_green_state (set_pwm_duty g d s) = led_green_state s"
  "pwm_enabled (set_pwm_duty g d s) = pwm_enabled s"
  "border_style (set_pwm_duty g d s) = border_style s"
  "last_interrupt_time (set_pwm_duty g d s) = last_interrupt_time s"
  by (simp_all add: set_pwm_duty_def)

lemma main_loop_body_frame:
  "led_green_state (main_loop_body lx ly vrx vry s) = led_green_state s"
  "pwm_enabled (main_loop_body lx ly vrx vry s) = pwm_enabled s"
  "border_style (main_loop_body lx ly vrx vry s) = border_style s"
  "last_interrupt_time (main_loop_body lx ly vrx vry s) = last_interrupt_time s"
  by (simp_all add: main_loop_body_def Let_def)

lemma main_loop_body_square:
  "square_x (main_loop_body lx ly vrx vry s) = 60 + c_div ((uint vry - 2048) * lx) 4095"
  "square_y (main_loop_body lx ly vrx vry s) = 28 - c_div ((uint vrx - 2048) * ly) 4095"
  by (simp_all add: main_loop_body_def Let_def JOYSTICK_CENTER_def ADC_MAX_def)

lemma driven_blue:
  "driven_level LED_B_PIN (trace (main_loop_body lx ly vrx vry s)) =
     Some (if pwm_enabled s then
             (if \<bar>uint vrx - 2048\<bar> > 150 then to_uint16 (\<bar>uint vrx - 2048\<bar> * 32) else 0)
           else 0)"
  by (simp add: main_loop_body_def Let_def driven_level_append JOYSTICK_CENTER_def)

lemma driven_red:
  "driven_level LED_R_PIN (trace (main_loop_body lx ly vrx vry s)) =
     Some (if pwm_enabled s then
             (if \<bar>uint vry - 2048\<bar> > 150 then to_uint16 (\<bar>uint vry - 2048\<bar> * 32) else 0)
           else 0)"
  by (simp add: main_loop_body_def Let_def driven_level_append JOYSTICK_CENTER_def
        LED_R_PIN_def LED_B_PIN_def)

lemma to_uint16_small: "0 \<le> i \<Longrightarrow> i < 65536 \<Longrightarrow> uint (to_uint16 i) = i"
  by (simp add: to_uint16_def uint_word_of_int)

lemma c_div_nonneg: "0 \<le> a \<Longrightarrow> 0 < b \<Longrightarrow> c_div a b = a div b"
  by (simp add: c_div_def)

lemma c_div_neg: "a < 0 \<Longrightarrow> 0 < b \<Longrightarrow> c_div a b = - ((- a) div b)"
  by (simp add: c_div_def)

lemma c_div_mono:
  assumes "0 < b" "a \<le> a'"
  shows "c_div a b \<le> c_div a' b"
proof -
  consider "0 \<le> a" | "a < 0" "0 \<le> a'" | "a' < 0" using assms by linarith
  then show ?thesis
  proof cases
    case 1
    then show ?thesis using assms by (simp add: c_div_nonneg zdiv_mono1)
  next
    case 2
    have "0 \<le> (- a) div b" using 2 assms by (simp add: pos_imp_zdiv_nonneg_iff)
    moreover have "0 \<le> a' div b" using 2 assms by (simp add: pos_imp_zdiv_nonneg_iff)
    ultimately show ?thesis using 2 assms by (simp add: c_div_nonneg c_div_neg)
  next
    case 3
    have "(- a') div b \<le> (- a) div b" using assms by (intro zdiv_mono1) simp_all
    then show ?thesis using 3 assms by (simp add: c_div_nonneg c_div_neg)
  qed
qed

subsection \<open>Arithmetic of the loop\<close>

text \<open>
  Every intermediate value of the arithmetic in the loop fits a 32-bit \<^verbatim>\<open>int\<close>, for any
  \<^verbatim>\<open>uint16_t\<close> sample and both pairs of limits, so the mathematical integers of the model
  are the values the program computes.
\<close>

lemma arith_fits_int:
  fixes v :: "16 word"
  assumes "\<bar>l\<bar> \<le> 114"
  shows "\<bar>uint v - JOYSTICK_CENTER\<bar> * 32 < 2 ^ 31"
    and "\<bar>(uint v - JOYSTICK_CENTER) * l\<bar> < 2 ^ 31"
proof -
  have b: "0 \<le> uint v" "uint v < 65536" using uint_lt2p [of v] by simp_all
  then have a: "\<bar>uint v - 2048\<bar> \<le> 63487" by arith
  then show "\<bar>uint v - JOYSTICK_CENTER\<bar> * 32 < 2 ^ 31" by (simp add: JOYSTICK_CENTER_def)
  have "\<bar>(uint v - 2048) * l\<bar> = \<bar>uint v - 2048\<bar> * \<bar>l\<bar>" by (simp add: abs_mult)
  also have "\<dots> \<le> 63487 * 114" using a assms by (intro mult_mono) simp_all
  finally show "\<bar>(uint v - JOYSTICK_CENTER) * l\<bar> < 2 ^ 31" by (simp add: JOYSTICK_CENTER_def)
qed

lemma pwm_level_in_range:
  fixes r :: "16 word"
  assumes "0 < uint r" "uint r \<le> 4095" "150 < \<bar>uint r - 2048\<bar>"
  shows "to_uint16 (\<bar>uint r - 2048\<bar> * 32) = to_uint16 (min (\<bar>uint r - 2048\<bar> * 32) 65535)"
proof -
  have "\<bar>uint r - 2048\<bar> * 32 \<le> 65535" using assms by arith
  then show ?thesis by (simp add: min_def)
qed

text \<open>
  Outside the dead zone, and for every sample but 0, the level written is the product,
  which does not reach the ceiling; with the PWM disabled the level written is 0.
\<close>

lemma pwm_level_outside_deadzone:
  fixes r :: "16 word"
  assumes "0 < uint r" "uint r \<le> 4095" "150 < \<bar>uint r - 2048\<bar>" "pwm_enabled s"
  shows "driven_level LED_B_PIN (trace (main_loop_body lx ly r v s)) =
           Some (to_uint16 (min (\<bar>uint r - 2048\<bar> * 32) 65535))"
    and "driven_level LED_R_PIN (trace (main_loop_body lx ly v r s)) =
           Some (to_uint16 (min (\<bar>uint r - 2048\<bar> * 32) 65535))"
  using assms by (simp_all add: driven_blue driven_red pwm_level_in_range)

lemma pwm_level_disabled:
  assumes "\<not> pwm_enabled s"
  shows "driven_level LED_B_PIN (trace (main_loop_body lx ly r v s)) = Some 0"
    and "driven_level LED_R_PIN (trace (main_loop_body lx ly v r s)) = Some 0"
  using assms by (simp_all add: driven_blue driven_red)

lemma c_div_4095_bounds:
  assumes "lo \<le> a" "a \<le> hi"
  shows "c_div lo 4095 \<le> c_div a 4095" "c_div a 4095 \<le> c_div hi 4095"
  using assms by (simp_all add: c_div_mono)

lemma displacement_range:
  fixes r :: "16 word"
  assumes "uint r \<le> 4095" "0 \<le> l"
  shows "- 2048 * l \<le> (uint r - 2048) * l" "(uint r - 2048) * l \<le> 2047 * l"
proof -
  have "- 2048 \<le> uint r - 2048" by simp
  then show "- 2048 * l \<le> (uint r - 2048) * l" using assms(2) by (rule mult_right_mono)
  have "uint r - 2048 \<le> 2047" using assms(1) by simp
  then show "(uint r - 2048) * l \<le> 2047 * l" using assms(2) by (rule mult_right_mono)
qed

lemma square_bounds:
  fixes vrx vry :: "16 word"
  assumes "uint vrx \<le> 4095" "uint vry \<le> 4095"
    and "0 \<le> lx" "lx \<le> 114" "0 \<le> ly" "ly \<le> 50"
  shows "3 \<le> square_x (main_loop_body lx ly vrx vry s)"
    and "square_x (main_loop_body lx ly vrx vry s) \<le> 116"
    and "4 \<le> square_y (main_loop_body lx ly vrx vry s)"
    and "square_y (main_loop_body lx ly vrx vry s) \<le> 53"
proof -
  have x1: "- 2048 * 114 \<le> (uint vry - 2048) * lx"
  proof -
    have "- 2048 * (114 :: int) \<le> - 2048 * lx" using assms by simp
    then show ?thesis using displacement_range(1) [OF assms(2) assms(3)] by linarith
  qed
  have x2: "(uint vry - 2048) * lx \<le> 2047 * 114"
    using displacement_range(2) [OF assms(2) assms(3)] assms by linarith
  have y1: "- 2048 * 50 \<le> (uint vrx - 2048) * ly"
  proof -
    have "- 2048 * (50 :: int) \<le> - 2048 * ly" using assms by simp
    then show ?thesis using displacement_range(1) [OF assms(1) assms(5)] by linarith
  qed
  have y2: "(uint vrx - 2048) * ly \<le> 2047 * 50"
    using displacement_range(2) [OF assms(1) assms(5)] assms by linarith
  have cx1: "c_div (- 2048 * 114) 4095 = - 57" and cx2: "c_div (2047 * 114) 4095 = 56"
    and cy1: "c_div (- 2048 * 50) 4095 = - 25" and cy2: "c_div (2047 * 50) 4095 = 24"
    by (simp_all add: c_div_def)
  show "3 \<le> square_x (main_loop_body lx ly vrx vry s)"
    using c_div_4095_bounds(1) [OF x1 x2] cx1 by (simp add: main_loop_body_square)
  show "square_x (main_loop_body lx ly vrx vry s) \<le> 116"
    using c_div_4095_bounds(2) [OF x1 x2] cx2 by (simp add: main_loop_body_square)
  show "4 \<le> square_y (main_loop_body lx ly vrx vry s)"
    using c_div_4095_bounds(2) [OF y1 y2] cy2 by (simp add: main_loop_body_square)
  show "square_y (main_loop_body lx ly vrx vry s) \<le> 53"
    using c_div_4095_bounds(1) [OF y1 y2] cy1 by (simp add: main_loop_body_square)
qed

lemma main_loop_body_draws_square:
  "Ssd1306Rect (square_y (main_loop_body lx ly vrx vry s)) (square_x (main_loop_body lx ly vrx vry s))
      8 8 True True \<in> set (new_effects s (main_loop_body lx ly vrx vry s))"
  by (simp add: main_loop_body_def Let_def new_effects_def draw_border_def)

subsection \<open>The handler, case by case\<close>

lemma gpio_callback_discard:
  "interrupt_time - last_interrupt_time s \<le> 200000 \<Longrightarrow>
     gpio_callback gpio events interrupt_time s = s"
  by (simp add: gpio_callback_def not_less [symmetric])

lemma gpio_callback_SW:
  assumes "200000 < interrupt_time - last_interrupt_time s"
  shows "gpio_callback SW_PIN events interrupt_time s =
           s\<lparr> led_green_state := \<not> led_green_state s,
              border_style := to_uint8 ((uint (border_style s) + 1) mod 3),
              last_interrupt_time := interrupt_time,
              trace := trace s @ [GpioPut LED_G_PIN (\<not> led_green_state s)] \<rparr>"
  using assms by (simp add: gpio_callback_def Let_def emit_def)

lemma gpio_callback_BUTTON_A:
  assumes "200000 < interrupt_time - last_interrupt_time s"
  shows "gpio_callback BUTTON_A_PIN events interrupt_time s =
           s\<lparr> pwm_enabled := \<not> pwm_enabled s, last_interrupt_time := interrupt_time \<rparr>"
  using assms by (simp add: gpio_callback_def Let_def SW_PIN_def BUTTON_A_PIN_def)

lemma gpio_callback_other:
  assumes "200000 < interrupt_time - last_interrupt_time s" "gpio \<noteq> SW_PIN" "gpio \<noteq> BUTTON_A_PIN"
  shows "gpio_callback gpio events interrupt_time s = s\<lparr> last_interrupt_time := interrupt_time \<rparr>"
  using assms by (simp add: gpio_callback_def Let_def)

lemma next_style_lt_3: "to_uint8 ((uint b + 1) mod 3) < 3"
proof -
  have "0 \<le> (uint b + 1) mod 3" "(uint b + 1) mod 3 < 3" by simp_all
  then have "uint (to_uint8 ((uint b + 1) mod 3)) = (uint b + 1) mod 3"
    by (simp add: to_uint8_def uint_word_of_int)
  then show ?thesis by (simp add: word_less_def)
qed

lemma style_cases:
  fixes b :: "8 word"
  assumes "b < 3"
  shows "b = 0 \<or> b = 1 \<or> b = 2"
proof -
  have "uint b < 3" using assms by (simp add: word_less_def)
  moreover have "0 \<le> uint b" by simp
  ultimately have "uint b = 0 \<or> uint b = 1 \<or> uint b = 2" by arith
  moreover have "b = word_of_int (uint b)" by simp
  ultimately show ?thesis by (metis word_of_int_0 word_of_int_1 word_of_int_numeral)
qed

lemma next_style_cycle:
  fixes b :: "8 word"
  assumes "b < 3"
  shows "to_uint8 ((uint (to_uint8 ((uint (to_uint8 ((uint b + 1) mod 3)) + 1) mod 3)) + 1) mod 3) = b"
  using style_cases [OF assms] by (auto simp: to_uint8_def)

lemma reachable_border_style:
  "reachable lx ly s \<Longrightarrow> border_style s < 3"
proof (induction rule: reachable.induct)
  case reach_init
  show ?case by (simp add: init_state_def)
next
  case (reach_irq s gpio events interrupt_time)
  then show ?case
    by (simp add: gpio_callback_def Let_def next_style_lt_3)
next
  case (reach_loop s vrx_value vry_value)
  then show ?case by (simp add: main_loop_body_frame)
qed

section \<open>The claims\<close>

subsection \<open>PWM levels\<close>

text \<open>
  C1. For a raw axis value \<open>r\<close> in 0..4095 outside the dead zone, with the PWM enabled, the
  level driven for the axis is claimed to be \<open>min (|r - 2048| * 32) 65535\<close>. At \<open>r = 0\<close>
  the distance is 2048 and the claimed level is 65535, but the program stores the product
  65536 in a \<^verbatim>\<open>uint16_t\<close> and drives level 0, on either axis. (For every other sample
  the claim holds: \<open>pwm_level_outside_deadzone\<close>, \<open>pwm_level_disabled\<close>.)
\<close>

theorem pwm_level_wraps_at_zero:
  "driven_level LED_B_PIN (trace (main_loop_body lx ly 0 vry (s\<lparr>pwm_enabled := True\<rparr>))) = Some 0
   \<and> driven_level LED_R_PIN (trace (main_loop_body lx ly vrx 0 (s\<lparr>pwm_enabled := True\<rparr>))) = Some 0
   \<and> 150 < \<bar>uint (0 :: 16 word) - 2048\<bar>
   \<and> to_uint16 (min (\<bar>uint (0 :: 16 word) - 2048\<bar> * 32) 65535) = 65535"
  by (simp add: driven_blue driven_red to_uint16_def)

theorem pwm_level_wraps_at_zero_witness:
  "driven_level LED_B_PIN (trace (main_loop_body_wide 0 2048 init_state)) = Some 0
   \<and> driven_level LED_R_PIN (trace (main_loop_body_wide 2048 0 init_state)) = Some 0
   \<and> pwm_enabled init_state
   \<and> to_uint16 (min (\<bar>uint (0 :: 16 word) - 2048\<bar> * 32) 65535) \<noteq> 0"
  using pwm_level_wraps_at_zero [of 114 50 2048 init_state 2048]
  by (simp add: main_loop_body_wide_def init_state_def to_uint16_def)

text \<open>
  C2. For every raw axis value \<open>r\<close> in 0..4095 with \<open>|r - 2048| \<le> 150\<close>, the boundary
  included, the PWM level driven for that axis is exactly 0, whatever \<open>pwm_enabled\<close> is.
  The blue level follows \<open>vrx_value\<close> and the red level follows \<open>vry_value\<close>.
\<close>

theorem pwm_level_deadzone:
  fixes r :: "16 word"
  assumes "uint r \<le> 4095" "\<bar>uint r - 2048\<bar> \<le> 150"
  shows "driven_level LED_B_PIN (trace (main_loop_body lx ly r v s)) = Some 0
       \<and> driven_level LED_R_PIN (trace (main_loop_body lx ly v r s)) = Some 0"
  using assms by (simp add: driven_blue driven_red)

theorem pwm_level_deadzone_witness:
  "uint (2198 :: 16 word) \<le> 4095 \<and> \<bar>uint (2198 :: 16 word) - 2048\<bar> \<le> 150
   \<and> driven_level LED_B_PIN (trace (main_loop_body_wide 2198 0 init_state)) = Some 0
   \<and> driven_level LED_R_PIN (trace (main_loop_body_wide 0 2198 init_state)) = Some 0"
  using pwm_level_deadzone [of 2198 114 50 0 init_state]
  by (simp add: main_loop_body_wide_def)

text \<open>
  C8. For the samples \<open>vrx = 4095\<close>, \<open>vry = 2048\<close> with the PWM enabled, the blue level
  driven is exactly \<open>2047 * 32 = 65504\<close>, which a 16-bit level holds, and the red level
  driven is exactly 0.
\<close>

theorem pwm_scenario_full_right:
  "driven_level LED_B_PIN (trace (main_loop_body lx ly 4095 2048 (s\<lparr>pwm_enabled := True\<rparr>))) = Some 65504
   \<and> driven_level LED_R_PIN (trace (main_loop_body lx ly 4095 2048 (s\<lparr>pwm_enabled := True\<rparr>))) = Some 0
   \<and> (65504 :: int) = 2047 * 32 \<and> uint (65504 :: 16 word) = 65504"
  by (simp add: driven_blue driven_red to_uint16_def)

theorem pwm_scenario_full_right_witness:
  "pwm_enabled init_state
   \<and> driven_level LED_B_PIN (trace (main_loop_body_wide 4095 2048 init_state)) = Some 65504
   \<and> driven_level LED_R_PIN (trace (main_loop_body_wide 4095 2048 init_state)) = Some 0
   \<and> driven_level LED_B_PIN (trace (main_loop_body_narrow 4095 2048 init_state)) = Some 65504
   \<and> driven_level LED_R_PIN (trace (main_loop_body_narrow 4095 2048 init_state)) = Some 0"
proof -
  have e: "pwm_enabled init_state" by (simp add: init_state_def)
  then have i: "init_state\<lparr>pwm_enabled := True\<rparr> = init_state" by simp
  have w: "main_loop_body_wide = main_loop_body 114 50"
    and n: "main_loop_body_narrow = main_loop_body 52 24"
    by (simp_all only: main_loop_body_wide_def main_loop_body_narrow_def)
  show ?thesis
    using e pwm_scenario_full_right [of 114 50 init_state]
      pwm_scenario_full_right [of 52 24 init_state]
    unfolding i w n by blast
qed

text \<open>
  C10. For the raw axis value 0, with the PWM enabled, the product \<open>2048 * 32 = 65536\<close>
  stored in the 16-bit duty variable wraps to 0, so the level driven at full low-end
  deflection is 0, while every sample \<open>r\<close> between it and the dead zone (\<open>0 < r < 1898\<close>)
  drives the positive level \<open>(2048 - r) * 32\<close>.
\<close>

theorem pwm_level_zero_sample_dark:
  fixes r :: "16 word"
  assumes "0 < uint r" "uint r < 1898" "pwm_enabled s"
  shows "\<bar>uint (0 :: 16 word) - JOYSTICK_CENTER\<bar> * 32 = 65536
       \<and> to_uint16 65536 = 0
       \<and> driven_level LED_B_PIN (trace (main_loop_body lx ly 0 v s)) = Some 0
       \<and> driven_level LED_R_PIN (trace (main_loop_body lx ly v 0 s)) = Some 0
       \<and> (\<exists>l. driven_level LED_B_PIN (trace (main_loop_body lx ly r v s)) = Some l
              \<and> uint l = (2048 - uint r) * 32 \<and> 0 < l)
       \<and> (\<exists>l. driven_level LED_R_PIN (trace (main_loop_body lx ly v r s)) = Some l
              \<and> uint l = (2048 - uint r) * 32 \<and> 0 < l)"
proof -
  have a: "\<bar>uint r - 2048\<bar> = 2048 - uint r" "150 < \<bar>uint r - 2048\<bar>" using assms by arith+
  have u: "uint (to_uint16 (\<bar>uint r - 2048\<bar> * 32)) = (2048 - uint r) * 32"
    using assms a by (simp add: to_uint16_small)
  then have "uint (to_uint16 (\<bar>uint r - 2048\<bar> * 32)) \<noteq> 0" using assms by simp
  then have "to_uint16 (\<bar>uint r - 2048\<bar> * 32) \<noteq> 0" by auto
  then have p: "0 < to_uint16 (\<bar>uint r - 2048\<bar> * 32)"
    by (simp add: word_neq_0_conv)
  show ?thesis using assms a(2) u p
    by (simp add: driven_blue driven_red JOYSTICK_CENTER_def to_uint16_def)
qed

theorem pwm_level_zero_sample_dark_witness:
  "0 < uint (1 :: 16 word) \<and> uint (1 :: 16 word) < 1898 \<and> pwm_enabled init_state
   \<and> driven_level LED_B_PIN (trace (main_loop_body_wide 0 2048 init_state)) = Some 0
   \<and> driven_level LED_R_PIN (trace (main_loop_body_wide 2048 0 init_state)) = Some 0
   \<and> driven_level LED_B_PIN (trace (main_loop_body_wide 1 2048 init_state)) = Some 65504
   \<and> driven_level LED_R_PIN (trace (main_loop_body_wide 2048 1 init_state)) = Some 65504"
  using pwm_level_zero_sample_dark [of 1 init_state 114 50 2048]
  by (simp add: main_loop_body_wide_def init_state_def driven_blue driven_red to_uint16_def)

subsection \<open>Marker position\<close>

text \<open>
  C3. For every pair of samples, each in 0..4095, the marker position computed by either
  copy of the program (limits 114 and 50, or 52 and 24) keeps the 8 by 8 square that is
  drawn inside the 128 by 64 display: \<open>0 \<le> square_x\<close>, \<open>square_x + 8 \<le> 128\<close>,
  \<open>0 \<le> square_y\<close>, \<open>square_y + 8 \<le> 64\<close>.
\<close>

theorem marker_inside_display:
  fixes vrx_value vry_value :: "16 word"
  assumes "uint vrx_value \<le> 4095" "uint vry_value \<le> 4095"
    and "s' = main_loop_body_wide vrx_value vry_value s
         \<or> s' = main_loop_body_narrow vrx_value vry_value s"
  shows "0 \<le> square_x s' \<and> square_x s' + 8 \<le> WIDTH
       \<and> 0 \<le> square_y s' \<and> square_y s' + 8 \<le> HEIGHT
       \<and> Ssd1306Rect (square_y s') (square_x s') 8 8 True True \<in> set (new_effects s s')"
proof -
  obtain lx ly where s': "s' = main_loop_body lx ly vrx_value vry_value s"
    and l: "0 \<le> lx" "lx \<le> 114" "0 \<le> ly" "ly \<le> 50"
    using assms(3) by (auto simp: main_loop_body_wide_def main_loop_body_narrow_def)
  show ?thesis
    using square_bounds [OF assms(1,2) l, of s] main_loop_body_draws_square [of lx ly vrx_value vry_value s]
    by (simp add: s' WIDTH_def HEIGHT_def)
qed

theorem marker_inside_display_witness:
  "uint (0 :: 16 word) \<le> 4095 \<and> uint (4095 :: 16 word) \<le> 4095
   \<and> square_x (main_loop_body_wide 0 4095 init_state) = 116
   \<and> square_y (main_loop_body_wide 0 4095 init_state) = 53
   \<and> 0 \<le> square_x (main_loop_body_wide 0 4095 init_state)
   \<and> square_x (main_loop_body_wide 0 4095 init_state) + 8 \<le> WIDTH
   \<and> 0 \<le> square_y (main_loop_body_wide 0 4095 init_state)
   \<and> square_y (main_loop_body_wide 0 4095 init_state) + 8 \<le> HEIGHT"
  using marker_inside_display [of 0 4095 "main_loop_body_wide 0 4095 init_state" init_state]
  by (simp add: main_loop_body_wide_def main_loop_body_square c_div_def)

text \<open>
  C7. Each marker coordinate is monotonic in the sample that drives it: for \<open>r1 \<le> r2\<close>
  the horizontal coordinate computed from \<open>r1\<close> is at most the one computed from \<open>r2\<close>,
  and the vertical coordinate computed from \<open>r1\<close> is at least the one computed from
  \<open>r2\<close>; at the sample 2048 the coordinates are the offsets 60 and 28. This holds for
  any limits that are not negative, so for both copies of the program.
\<close>

theorem marker_monotonic:
  fixes r1 r2 :: "16 word"
  assumes "r1 \<le> r2" "0 \<le> limit_x" "0 \<le> limit_y"
  shows "square_x (main_loop_body limit_x limit_y vrx r1 s)
           \<le> square_x (main_loop_body limit_x limit_y vrx' r2 s')
       \<and> square_y (main_loop_body limit_x limit_y r1 vry s)
           \<ge> square_y (main_loop_body limit_x limit_y r2 vry' s')
       \<and> square_x (main_loop_body limit_x limit_y vrx 2048 s) = 60
       \<and> square_y (main_loop_body limit_x limit_y 2048 vry s) = 28"
proof -
  have "uint r1 - 2048 \<le> uint r2 - 2048" using assms(1) by (simp add: word_le_def)
  then have "(uint r1 - 2048) * limit_x \<le> (uint r2 - 2048) * limit_x"
    and "(uint r1 - 2048) * limit_y \<le> (uint r2 - 2048) * limit_y"
    using assms(2,3) by (simp_all add: mult_right_mono)
  then have "c_div ((uint r1 - 2048) * limit_x) 4095 \<le> c_div ((uint r2 - 2048) * limit_x) 4095"
    and "c_div ((uint r1 - 2048) * limit_y) 4095 \<le> c_div ((uint r2 - 2048) * limit_y) 4095"
    by (simp_all add: c_div_mono)
  then show ?thesis by (simp add: main_loop_body_square c_div_def)
qed

theorem marker_monotonic_witness:
  "(1000 :: 16 word) \<le> 3000 \<and> (0 :: int) \<le> 114 \<and> (0 :: int) \<le> 50
   \<and> square_x (main_loop_body_wide 0 1000 init_state) = 31
   \<and> square_x (main_loop_body_wide 0 3000 init_state) = 86
   \<and> square_x (main_loop_body_wide 0 1000 init_state) \<le> square_x (main_loop_body_wide 0 3000 init_state)
   \<and> square_y (main_loop_body_wide 1000 0 init_state) \<ge> square_y (main_loop_body_wide 3000 0 init_state)
   \<and> square_x (main_loop_body_wide 0 2048 init_state) = 60
   \<and> square_y (main_loop_body_wide 2048 0 init_state) = 28"
  using marker_monotonic [of 1000 3000 114 50 0 init_state 0 init_state 0 0]
  by (simp add: main_loop_body_wide_def main_loop_body_square c_div_def)

subsection \<open>Buttons\<close>

text \<open>
  C4. An event whose clock value is at most 200000 microseconds after the last accepted
  one (one window for both pins) is discarded: the handler returns the state as it was,
  trace included. An event more than 200000 microseconds after it is accepted: the clock
  value is stored and the effect of the pin is applied. The elapsed time is the
  \<^verbatim>\<open>uint32_t\<close> difference the program computes, which is the numeric difference as long
  as the clock has not wrapped since the last accepted event.
\<close>

theorem debounce_window:
  "(interrupt_time - last_interrupt_time s \<le> 200000 \<longrightarrow>
      gpio_callback gpio events interrupt_time s = s)
   \<and> (200000 < interrupt_time - last_interrupt_time s \<longrightarrow>
        last_interrupt_time (gpio_callback gpio events interrupt_time s) = interrupt_time
      \<and> (gpio = SW_PIN \<longrightarrow>
            led_green_state (gpio_callback gpio events interrupt_time s) = (\<not> led_green_state s)
          \<and> border_style (gpio_callback gpio events interrupt_time s)
              = to_uint8 ((uint (border_style s) + 1) mod 3)
          \<and> new_effects s (gpio_callback gpio events interrupt_time s)
              = [GpioPut LED_G_PIN (\<not> led_green_state s)])
      \<and> (gpio = BUTTON_A_PIN \<longrightarrow>
            pwm_enabled (gpio_callback gpio events interrupt_time s) = (\<not> pwm_enabled s)))
   \<and> (last_interrupt_time s \<le> interrupt_time \<longrightarrow>
        unat (interrupt_time - last_interrupt_time s)
          = unat interrupt_time - unat (last_interrupt_time s))"
proof (intro conjI impI)
  assume "interrupt_time - last_interrupt_time s \<le> 200000"
  then show "gpio_callback gpio events interrupt_time s = s" by (rule gpio_callback_discard)
next
  assume "200000 < interrupt_time - last_interrupt_time s"
  then show "last_interrupt_time (gpio_callback gpio events interrupt_time s) = interrupt_time"
    by (simp add: gpio_callback_def Let_def)
next
  assume a: "200000 < interrupt_time - last_interrupt_time s" and g: "gpio = SW_PIN"
  show "led_green_state (gpio_callback gpio events interrupt_time s) = (\<not> led_green_state s)"
    and "border_style (gpio_callback gpio events interrupt_time s)
           = to_uint8 ((uint (border_style s) + 1) mod 3)"
    and "new_effects s (gpio_callback gpio events interrupt_time s)
           = [GpioPut LED_G_PIN (\<not> led_green_state s)]"
    by (simp_all add: g gpio_callback_SW [OF a] new_effects_def)
next
  assume a: "200000 < interrupt_time - last_interrupt_time s" and g: "gpio = BUTTON_A_PIN"
  show "pwm_enabled (gpio_callback gpio events interrupt_time s) = (\<not> pwm_enabled s)"
    by (simp add: g gpio_callback_BUTTON_A [OF a])
next
  assume "last_interrupt_time s \<le> interrupt_time"
  then show "unat (interrupt_time - last_interrupt_time s)
               = unat interrupt_time - unat (last_interrupt_time s)"
    by (rule unat_sub)
qed

theorem debounce_window_witness:
  "gpio_callback SW_PIN 0 700000 (init_state\<lparr>last_interrupt_time := 500000\<rparr>)
     = init_state\<lparr>last_interrupt_time := 500000\<rparr>
   \<and> last_interrupt_time
        (gpio_callback SW_PIN 0 700001 (init_state\<lparr>last_interrupt_time := 500000\<rparr>)) = 700001
   \<and> led_green_state
        (gpio_callback SW_PIN 0 700001 (init_state\<lparr>last_interrupt_time := 500000\<rparr>))
   \<and> border_style
        (gpio_callback SW_PIN 0 700001 (init_state\<lparr>last_interrupt_time := 500000\<rparr>)) = 1"
  using debounce_window [of 700000 "init_state\<lparr>last_interrupt_time := 500000\<rparr>" SW_PIN 0]
    debounce_window [of 700001 "init_state\<lparr>last_interrupt_time := 500000\<rparr>" SW_PIN 0]
  by (simp add: init_state_def to_uint8_def)

text \<open>
  C5. From any state the program can reach, three consecutive accepted edges on the
  joystick button bring \<open>border_style\<close> back to its value (each maps the style to
  \<open>(style + 1) mod 3\<close>, and neither one nor two edges bring it back), and each accepted
  edge inverts \<open>led_green_state\<close> and writes it to the green pin, so two edges restore it.
\<close>

theorem mode_select_cycle:
  assumes "reachable limit_x limit_y s"
    and "200000 < t1 - last_interrupt_time s" "200000 < t2 - t1" "200000 < t3 - t2"
    and "s1 = gpio_callback SW_PIN e1 t1 s"
    and "s2 = gpio_callback SW_PIN e2 t2 s1"
    and "s3 = gpio_callback SW_PIN e3 t3 s2"
  shows "border_style s3 = border_style s
       \<and> border_style s1 = to_uint8 ((uint (border_style s) + 1) mod 3)
       \<and> border_style s2 = to_uint8 ((uint (border_style s1) + 1) mod 3)
       \<and> border_style s3 = to_uint8 ((uint (border_style s2) + 1) mod 3)
       \<and> border_style s1 \<noteq> border_style s \<and> border_style s2 \<noteq> border_style s
       \<and> led_green_state s1 = (\<not> led_green_state s)
       \<and> led_green_state s2 = led_green_state s
       \<and> led_green_state s3 = (\<not> led_green_state s)
       \<and> new_effects s s1 = [GpioPut LED_G_PIN (led_green_state s1)]"
proof -
  have b: "border_style s < 3" using assms(1) by (rule reachable_border_style)
  have 1: "s1 = s\<lparr> led_green_state := \<not> led_green_state s,
              border_style := to_uint8 ((uint (border_style s) + 1) mod 3),
              last_interrupt_time := t1,
              trace := trace s @ [GpioPut LED_G_PIN (\<not> led_green_state s)] \<rparr>"
    using assms(2,5) by (simp add: gpio_callback_SW)
  have 2: "s2 = s1\<lparr> led_green_state := \<not> led_green_state s1,
              border_style := to_uint8 ((uint (border_style s1) + 1) mod 3),
              last_interrupt_time := t2,
              trace := trace s1 @ [GpioPut LED_G_PIN (\<not> led_green_state s1)] \<rparr>"
    using assms(3,6) 1 by (simp add: gpio_callback_SW)
  have 3: "s3 = s2\<lparr> led_green_state := \<not> led_green_state s2,
              border_style := to_uint8 ((uint (border_style s2) + 1) mod 3),
              last_interrupt_time := t3,
              trace := trace s2 @ [GpioPut LED_G_PIN (\<not> led_green_state s2)] \<rparr>"
    using assms(4,7) 2 by (simp add: gpio_callback_SW)
  have c: "border_style s3 = border_style s"
    using next_style_cycle [OF b] by (simp add: 1 2 3)
  have n: "to_uint8 ((uint (border_style s) + 1) mod 3) \<noteq> border_style s"
    "to_uint8 ((uint (to_uint8 ((uint (border_style s) + 1) mod 3)) + 1) mod 3) \<noteq> border_style s"
    using style_cases [OF b] by (auto simp: to_uint8_def)
  show ?thesis using c n by (simp add: 1 2 3 new_effects_def)
qed

theorem mode_select_cycle_witness:
  "reachable 114 50 init_state
   \<and> 200000 < (300000 :: 32 word) - last_interrupt_time init_state
   \<and> 200000 < (600000 :: 32 word) - 300000 \<and> 200000 < (900000 :: 32 word) - 600000
   \<and> border_style (gpio_callback SW_PIN 0 900000 (gpio_callback SW_PIN 0 600000
         (gpio_callback SW_PIN 0 300000 init_state))) = border_style init_state
   \<and> border_style (gpio_callback SW_PIN 0 300000 init_state) = 1
   \<and> led_green_state (gpio_callback SW_PIN 0 300000 init_state)
   \<and> \<not> led_green_state (gpio_callback SW_PIN 0 600000 (gpio_callback SW_PIN 0 300000 init_state))"
proof -
  have t: "200000 < (300000 :: 32 word) - last_interrupt_time init_state"
    "200000 < (600000 :: 32 word) - 300000" "200000 < (900000 :: 32 word) - 600000"
    by (simp_all add: init_state_def)
  show ?thesis
    using t reach_init [of 114 50] mode_select_cycle [OF reach_init [of 114 50] t refl refl refl, where ?e1.0 = 0 and ?e2.0 = 0 and ?e3.0 = 0]
    by (simp add: init_state_def to_uint8_def)
qed

text \<open>
  C6. An accepted edge on button A inverts \<open>pwm_enabled\<close> and stores the clock value, and
  nothing else: \<open>led_green_state\<close>, \<open>border_style\<close> and the marker position are unchanged
  and no effect is appended to the trace, so no pin is written.
\<close>

theorem button_a_frame:
  assumes "200000 < interrupt_time - last_interrupt_time s"
  shows "gpio_callback BUTTON_A_PIN events interrupt_time s
           = s\<lparr> pwm_enabled := \<not> pwm_enabled s, last_interrupt_time := interrupt_time \<rparr>
       \<and> pwm_enabled (gpio_callback BUTTON_A_PIN events interrupt_time s) = (\<not> pwm_enabled s)
       \<and> led_green_state (gpio_callback BUTTON_A_PIN events interrupt_time s) = led_green_state s
       \<and> border_style (gpio_callback BUTTON_A_PIN events interrupt_time s) = border_style s
       \<and> trace (gpio_callback BUTTON_A_PIN events interrupt_time s) = trace s
       \<and> new_effects s (gpio_callback BUTTON_A_PIN events interrupt_time s) = []"
  by (simp add: gpio_callback_BUTTON_A [OF assms] new_effects_def)

theorem button_a_frame_witness:
  "200000 < (200001 :: 32 word) - last_interrupt_time init_state
   \<and> gpio_callback BUTTON_A_PIN 0 200001 init_state
        = init_state\<lparr> pwm_enabled := False, last_interrupt_time := 200001 \<rparr>
   \<and> trace (gpio_callback BUTTON_A_PIN 0 200001 init_state) = []"
proof -
  have t: "200000 < (200001 :: 32 word) - last_interrupt_time init_state"
    by (simp add: init_state_def)
  show ?thesis using t button_a_frame [OF t, of 0] by (simp add: init_state_def)
qed

text \<open>
  C9. \<open>border_style\<close> starts at 0 and is 0, 1 or 2 in every state the program reaches by
  any sequence of handler calls and loop passes. The loop does not write it, and a handler
  call that changes it is an accepted edge on the joystick button, which stores
  \<open>(border_style + 1) mod 3\<close>.
\<close>

theorem border_style_invariant:
  assumes "reachable limit_x limit_y s"
  shows "border_style s \<in> {0, 1, 2}
       \<and> border_style init_state = 0
       \<and> border_style (main_loop_body limit_x limit_y vrx_value vry_value s) = border_style s
       \<and> (border_style (gpio_callback gpio events interrupt_time s) = border_style s
          \<or> (gpio = SW_PIN \<and> 200000 < interrupt_time - last_interrupt_time s
              \<and> border_style (gpio_callback gpio events interrupt_time s)
                   = to_uint8 ((uint (border_style s) + 1) mod 3)))"
proof -
  have "border_style s \<in> {0, 1, 2}"
    using style_cases [OF reachable_border_style [OF assms]] by auto
  moreover have "border_style init_state = 0" by (simp add: init_state_def)
  moreover have "border_style (gpio_callback gpio events interrupt_time s) = border_style s
          \<or> (gpio = SW_PIN \<and> 200000 < interrupt_time - last_interrupt_time s
              \<and> border_style (gpio_callback gpio events interrupt_time s)
                   = to_uint8 ((uint (border_style s) + 1) mod 3))"
    by (simp add: gpio_callback_def Let_def)
  ultimately show ?thesis by (simp add: main_loop_body_frame)
qed

theorem border_style_invariant_witness:
  "reachable 114 50 (main_loop_body 114 50 0 4095 (gpio_callback SW_PIN 0 300000 init_state))
   \<and> border_style (main_loop_body 114 50 0 4095 (gpio_callback SW_PIN 0 300000 init_state)) = 1
   \<and> border_style (main_loop_body 114 50 0 4095 (gpio_callback SW_PIN 0 300000 init_state))
        \<in> {0, 1, 2}"
proof -
  have r: "reachable 114 50 (main_loop_body 114 50 0 4095 (gpio_callback SW_PIN 0 300000 init_state))"
    by (intro reach_loop reach_irq reach_init)
  have "200000 < (300000 :: 32 word) - last_interrupt_time init_state"
    by (simp add: init_state_def)
  then have "border_style (main_loop_body 114 50 0 4095 (gpio_callback SW_PIN 0 300000 init_state)) = 1"
    by (simp add: main_loop_body_frame gpio_callback_SW init_state_def to_uint8_def)
  then show ?thesis using r border_style_invariant [OF r, of 0 0 0 0 0] by simp
qed

end
